theory Spec2Isabelle
  imports Main "HOL-Library.Word"
begin

section \<open>The assignment aggregator of the study-engage platform\<close>

text \<open>
  This theory embeds \<^verbatim>\<open>fetchStudentAssignments\<close>
  (\<^verbatim>\<open>src/src/components/teacher/AssignmentUploader.tsx\<close>, lines 500 to 602): the routine
  that reads a student's enrollments, the titles of the enrolled courses, the assignments
  of each course and the student's submissions from a hosted realtime database, and joins
  them into a list of assignment views.

  The database, the console and the toast library are collaborators. The database is a
  parameter of the model (its contents, and which of its reads throw); what the routine
  asks of it and what it prints or notifies is recorded as a trace of events.
\<close>

subsection \<open>Values\<close>

text \<open>
  A leaf of the database tree: a boolean, a number or a string. The database stores
  neither \<^verbatim>\<open>null\<close> nor \<^verbatim>\<open>undefined\<close>. Numbers are the integers from \<open>- (2 ^ 53)\<close> up
  to \<open>2 ^ 53 - 1\<close>, read from the word by \<open>sint\<close>: the runtime represents each of them
  exactly and prints it in decimal digits. The routine only compares numbers, tests them
  against zero and prints them.
\<close>

datatype leaf = LBool bool | LNum "54 word" | LStr string

text \<open>
  A stored record is a flat object: a finite map from field names to leaves, as the
  writer in the same file creates them. Reading a field that is absent yields
  JavaScript's \<^verbatim>\<open>undefined\<close>, which is \<open>None\<close> here; on \<open>leaf option\<close> the strict
  equality \<^verbatim>\<open>===\<close> of the source is the equality of HOL.
\<close>

type_synonym fields = "string \<rightharpoonup> leaf"

text \<open>
  The values the routine itself handles: besides leaves, \<^verbatim>\<open>undefined\<close>,
  \<^verbatim>\<open>null\<close>, a whole submission record, and the members that every object literal
  inherits from \<^verbatim>\<open>Object.prototype\<close>: \<open>Builtin k\<close> is what \<^verbatim>\<open>({})[k]\<close> yields,
  a function of the runtime or, for \<^verbatim>\<open>__proto__\<close>, the prototype itself.
\<close>

datatype jsval = Undefined | Null | Leaf leaf | Obj fields | Builtin string

text \<open>
  An object that the routine creates by an object literal, as the map of its own
  properties. A view is such an object.
\<close>

type_synonym object = "string \<rightharpoonup> jsval"

type_synonym view = object

text \<open>
  The names of the members of \<^verbatim>\<open>Object.prototype\<close>, those of ECMAScript and of its
  annex for browsers, and the read \<^verbatim>\<open>obj[k]\<close> of an object literal: its own property,
  or else the inherited member, or else \<^verbatim>\<open>undefined\<close>.
\<close>

definition object_prototype_names :: "string list" where
  "object_prototype_names =
     [''constructor'', ''hasOwnProperty'', ''isPrototypeOf'', ''propertyIsEnumerable'',
      ''toLocaleString'', ''toString'', ''valueOf'', ''__proto__'',
      ''__defineGetter__'', ''__defineSetter__'', ''__lookupGetter__'', ''__lookupSetter__'']"

definition inherited :: "string \<Rightarrow> jsval" where
  "inherited k = (if k \<in> set object_prototype_names then Builtin k else Undefined)"

definition get_prop :: "object \<Rightarrow> string \<Rightarrow> jsval" where
  "get_prop obj k = (case obj k of Some v \<Rightarrow> v | None \<Rightarrow> inherited k)"

text \<open>The value of a read \<^verbatim>\<open>record.field\<close> of a stored record.\<close>

definition from_record :: "leaf option \<Rightarrow> jsval" where
  "from_record x = (case x of None \<Rightarrow> Undefined | Some l \<Rightarrow> Leaf l)"

text \<open>
  The assignment \<^verbatim>\<open>obj[k] = record.field\<close>. It creates or replaces the own property
  \<open>k\<close>, except for \<^verbatim>\<open>__proto__\<close>: that name is an accessor of the prototype, whose
  setter ignores a value that is neither an object nor \<^verbatim>\<open>null\<close>, and the field of a
  stored record is a leaf or \<^verbatim>\<open>undefined\<close>.
\<close>

definition assign_field :: "object \<Rightarrow> string \<Rightarrow> leaf option \<Rightarrow> object" where
  "assign_field obj k x = (if k = ''__proto__'' then obj else obj(k \<mapsto> from_record x))"

text \<open>Truthiness, of a value read from a record and of any value, and the operator \<^verbatim>\<open>||\<close>.\<close>

fun truthy :: "leaf option \<Rightarrow> bool" where
  "truthy None = False"
| "truthy (Some (LBool b)) = b"
| "truthy (Some (LNum n)) = (n \<noteq> 0)"
| "truthy (Some (LStr s)) = (s \<noteq> [])"

fun truthy_value :: "jsval \<Rightarrow> bool" where
  "truthy_value Undefined = False"
| "truthy_value Null = False"
| "truthy_value (Leaf l) = truthy (Some l)"
| "truthy_value (Obj r) = True"
| "truthy_value (Builtin k) = True"

definition js_or :: "jsval \<Rightarrow> jsval \<Rightarrow> jsval" where
  "js_or a b = (if truthy_value a then a else b)"

text \<open>
  The conversion to a string that a template literal and a property key apply:
  \<^verbatim>\<open>`courses/${courseId}`\<close> and \<^verbatim>\<open>coursesMap[courseId]\<close>. A number of the range
  above is printed in decimal digits.
\<close>

definition digit_char :: "nat \<Rightarrow> char" where
  "digit_char d = char_of (48 + d)"

fun nat_to_string :: "nat \<Rightarrow> string" where
  "nat_to_string n =
     (if n < 10 then [digit_char n] else nat_to_string (n div 10) @ [digit_char (n mod 10)])"

definition int_to_string :: "int \<Rightarrow> string" where
  "int_to_string i = (if i < 0 then CHR ''-'' # nat_to_string (nat (- i)) else nat_to_string (nat i))"

fun to_string :: "leaf option \<Rightarrow> string" where
  "to_string None = ''undefined''"
| "to_string (Some (LBool b)) = (if b then ''true'' else ''false'')"
| "to_string (Some (LNum n)) = int_to_string (sint n)"
| "to_string (Some (LStr s)) = s"

subsection \<open>The collaborators\<close>

datatype error = Store_error string

text \<open>
  The database as the routine sees it. A collection is the list of its children, key and
  record, in the order \<^verbatim>\<open>forEach\<close> visits them. The course store is read by path
  (the text after \<^verbatim>\<open>courses/\<close>). Each read may throw: the enrollment query, the
  read of a course path, the read of the assignment collection made in the i-th round of
  the per-course loop, the submission query.
\<close>

record backend =
  enrollment_store :: "(string \<times> fields) list"
  course_store :: "string \<Rightarrow> fields option"
  assignment_store :: "(string \<times> fields) list"
  submission_store :: "(string \<times> fields) list"
  enrollments_throw :: "error option"
  courses_throw :: "string \<Rightarrow> error option"
  assignments_throw :: "nat \<Rightarrow> error option"
  submissions_throw :: "error option"

text \<open>What the routine does to the outside, in order.\<close>

datatype event =
    Get_enrollments string
  | Get_course string
  | Get_assignments
  | Get_submissions string
  | Console_error string error
  | Toast_error string

record world =
  backend :: backend
  events :: "event list"

text \<open>
  \<^verbatim>\<open>query(ref(database, c), orderByChild(f), equalTo(v))\<close> for a string \<open>v\<close>: the
  children of the collection whose field \<open>f\<close> is the string \<open>v\<close>.
\<close>

definition equal_to :: "string \<Rightarrow> string \<Rightarrow> (string \<times> fields) list \<Rightarrow> (string \<times> fields) list" where
  "equal_to f v coll = filter (\<lambda>(k, r). r f = Some (LStr v)) coll"

definition get_enrollments :: "backend \<Rightarrow> string \<Rightarrow> (error + (string \<times> fields) list) \<times> event list" where
  "get_enrollments b userId =
     (case enrollments_throw b of
        Some e \<Rightarrow> (Inl e, [Get_enrollments userId])
      | None \<Rightarrow> (Inr (equal_to ''student_id'' userId (enrollment_store b)), [Get_enrollments userId]))"

definition get_submissions :: "backend \<Rightarrow> string \<Rightarrow> (error + (string \<times> fields) list) \<times> event list" where
  "get_submissions b userId =
     (case submissions_throw b of
        Some e \<Rightarrow> (Inl e, [Get_submissions userId])
      | None \<Rightarrow> (Inr (equal_to ''user_id'' userId (submission_store b)), [Get_submissions userId]))"

subsection \<open>The routine\<close>

text \<open>
  Lines 518 to 522: one course id per enrollment record, in the order of the snapshot.
\<close>

definition course_ids :: "(string \<times> fields) list \<Rightarrow> leaf option list" where
  "course_ids snapshot = map (\<lambda>(k, r). r ''course_id'') snapshot"

text \<open>
  Lines 529 to 538: \<^verbatim>\<open>coursesMap\<close>, an object literal, and the loop that fills it.
  The loop has no handler of its own, so a read that throws leaves the loop with the
  error.
\<close>

fun course_names :: "backend \<Rightarrow> leaf option list \<Rightarrow> object
    \<Rightarrow> (error + object) \<times> event list" where
  "course_names b [] coursesMap = (Inr coursesMap, [])"
| "course_names b (courseId # rest) coursesMap =
     (let path = to_string courseId in
      case courses_throw b path of
        Some e \<Rightarrow> (Inl e, [Get_course path])
      | None \<Rightarrow>
          (let coursesMap' =
                 (case course_store b path of
                    Some course \<Rightarrow> assign_field coursesMap path (course ''title'')
                  | None \<Rightarrow> coursesMap);
               (r, evs) = course_names b rest coursesMap'
           in (r, Get_course path # evs)))"

text \<open>
  Lines 551 to 555: \<^verbatim>\<open>{id: childSnapshot.key, ...assignment, course_name: ...}\<close>.
  The spread comes after \<^verbatim>\<open>id\<close>, so a field \<^verbatim>\<open>id\<close> of the record replaces the key.
  The course name is \<^verbatim>\<open>coursesMap[courseId] || 'Unknown Course'\<close>.
\<close>

definition decorate :: "object \<Rightarrow> leaf option \<Rightarrow> string \<times> fields \<Rightarrow> object" where
  "decorate coursesMap courseId child =
     (case child of (key, assignment) \<Rightarrow>
        (map_option Leaf \<circ> ([''id'' \<mapsto> LStr key] ++ assignment))
          (''course_name'' \<mapsto>
             js_or (get_prop coursesMap (to_string courseId)) (Leaf (LStr ''Unknown Course''))))"

text \<open>
  Lines 540 to 563: the per-course loop. Each round reads the whole assignment collection
  and keeps the children of the round's course; a read that throws is caught in the
  round, logged, and the loop goes on. \<open>i\<close> counts the rounds. The test
  \<^verbatim>\<open>assignmentsSnapshot.exists()\<close> guards a \<^verbatim>\<open>forEach\<close> that visits nothing when the
  collection is empty, so the filter over the children covers it.
\<close>

fun course_assignments :: "backend \<Rightarrow> object \<Rightarrow> nat \<Rightarrow> leaf option list
    \<Rightarrow> object list \<times> event list" where
  "course_assignments b coursesMap i [] = ([], [])"
| "course_assignments b coursesMap i (courseId # rest) =
     (let (found, evs) =
            (case assignments_throw b i of
               Some courseError \<Rightarrow>
                 ([], [Get_assignments,
                       Console_error (''Error fetching assignments for course '' @ to_string courseId @ '':'')
                         courseError])
             | None \<Rightarrow>
                 (map (decorate coursesMap courseId)
                    (filter (\<lambda>(key, assignment). assignment ''course_id'' = courseId) (assignment_store b)),
                  [Get_assignments]));
          (more, evs') = course_assignments b coursesMap (Suc i) rest
      in (found @ more, evs @ evs'))"

text \<open>Lines 575 to 580: \<^verbatim>\<open>{id: childSnapshot.key, ...childSnapshot.val()}\<close>.\<close>

definition submission_of :: "string \<times> fields \<Rightarrow> fields" where
  "submission_of child = (case child of (key, val) \<Rightarrow> [''id'' \<mapsto> LStr key] ++ val)"

text \<open>
  Lines 584 to 594: the join of one aggregated assignment with the submissions. The
  field \<^verbatim>\<open>s.assignment_id\<close> of a submission is a leaf or \<^verbatim>\<open>undefined\<close>, so it is
  strictly equal to \<^verbatim>\<open>assignment.id\<close> exactly when the two values are the same.
\<close>

definition with_submission :: "fields list \<Rightarrow> object \<Rightarrow> view" where
  "with_submission submissions assignment =
     (let submission =
            find (\<lambda>s. from_record (s ''assignment_id'') = get_prop assignment ''id'') submissions in
      assignment
        (''submitted'' \<mapsto> Leaf (LBool (submission \<noteq> None)),
         ''submission'' \<mapsto> (case submission of Some s \<Rightarrow> Obj s | None \<Rightarrow> Null),
         ''assignmentType'' \<mapsto> js_or (get_prop assignment ''assignmentType'') (Leaf (LStr ''text'')),
         ''textContent'' \<mapsto> js_or (get_prop assignment ''description'') (get_prop assignment ''textContent'')))"

text \<open>Lines 505 to 596: the body of the \<^verbatim>\<open>try\<close> block.\<close>

definition try_block :: "backend \<Rightarrow> string \<Rightarrow> (error + view list) \<times> event list" where
  "try_block b userId =
     (case get_enrollments b userId of
        (Inl e, evs1) \<Rightarrow> (Inl e, evs1)
      | (Inr enrollmentSnapshot, evs1) \<Rightarrow>
          if enrollmentSnapshot = [] then (Inr [], evs1)
          else
            (let courseIds = course_ids enrollmentSnapshot in
             if length courseIds = 0 then (Inr [], evs1)
             else
               (case course_names b courseIds Map.empty of
                  (Inl e, evs2) \<Rightarrow> (Inl e, evs1 @ evs2)
                | (Inr coursesMap, evs2) \<Rightarrow>
                    (case course_assignments b coursesMap 0 courseIds of
                       (assignmentsData, evs3) \<Rightarrow>
                         (case get_submissions b userId of
                            (Inl e, evs4) \<Rightarrow> (Inl e, evs1 @ evs2 @ evs3 @ evs4)
                          | (Inr submissionsSnapshot, evs4) \<Rightarrow>
                              (let submissions = map submission_of submissionsSnapshot in
                               (Inr (map (with_submission submissions) assignmentsData),
                                evs1 @ evs2 @ evs3 @ evs4)))))))"

text \<open>
  The promise the caller receives, and the whole routine: the guard of lines 501 to 503,
  the \<^verbatim>\<open>try\<close> block, and the handler of lines 597 to 601. \<open>None\<close> is the
  argument \<^verbatim>\<open>undefined\<close>.
\<close>

datatype 'a promise = Fulfilled 'a | Rejected error

definition fetchStudentAssignments :: "string option \<Rightarrow> world \<Rightarrow> view list promise \<times> world" where
  "fetchStudentAssignments userId w =
     (case userId of
        None \<Rightarrow> (Fulfilled [], w)
      | Some uid \<Rightarrow>
          if uid = [] then (Fulfilled [], w)
          else
            (case try_block (backend w) uid of
               (Inr result, evs) \<Rightarrow> (Fulfilled result, w\<lparr>events := events w @ evs\<rparr>)
             | (Inl e, evs) \<Rightarrow>
                 (Fulfilled [],
                  w\<lparr>events := events w @ evs @
                     [Console_error ''Error fetching assignments:'' e,
                      Toast_error ''Failed to fetch assignments. Please try again later.'']\<rparr>)))"

definition views_of :: "view list promise \<Rightarrow> view list" where
  "views_of p = (case p of Fulfilled vs \<Rightarrow> vs | Rejected e \<Rightarrow> [])"

text \<open>
  The fields of a view that the routine computes; every other field of a view is copied
  from the stored assignment record.
\<close>

definition derived_fields :: "string set" where
  "derived_fields =
     {''id'', ''course_name'', ''submitted'', ''submission'', ''assignmentType'', ''textContent''}"

text \<open>The course id that a view carries, when it is a leaf.\<close>

definition course_id_of :: "view \<Rightarrow> leaf option" where
  "course_id_of v = (case v ''course_id'' of Some (Leaf l) \<Rightarrow> Some l | _ \<Rightarrow> None)"

subsection \<open>A small database\<close>

text \<open>
  Student \<open>s1\<close> is enrolled in the courses \<open>A\<close> and \<open>B\<close>. Course \<open>A\<close> has the
  assignment \<open>a1\<close>, which carries both a description and a text content and has no
  submission of \<open>s1\<close>. Course \<open>B\<close> has \<open>b1\<close>, submitted twice by \<open>s1\<close>, and \<open>b2\<close>,
  whose record has an \<open>id\<close> field of its own.
\<close>

definition demo_backend :: backend where
  "demo_backend =
     \<lparr>enrollment_store =
        [(''e1'', [''student_id'' \<mapsto> LStr ''s1'', ''course_id'' \<mapsto> LStr ''A'']),
         (''e2'', [''student_id'' \<mapsto> LStr ''s1'', ''course_id'' \<mapsto> LStr ''B'']),
         (''e3'', [''student_id'' \<mapsto> LStr ''s2'', ''course_id'' \<mapsto> LStr ''C''])],
      course_store =
        (\<lambda>path. if path = ''A'' then Some [''title'' \<mapsto> LStr ''Algebra'']
                else if path = ''B'' then Some [''title'' \<mapsto> LStr ''Biology'']
                else None),
      assignment_store =
        [(''a1'', [''course_id'' \<mapsto> LStr ''A'', ''title'' \<mapsto> LStr ''Sets'',
                   ''description'' \<mapsto> LStr ''Read chapter 1'',
                   ''textContent'' \<mapsto> LStr ''Generated text'']),
         (''b1'', [''course_id'' \<mapsto> LStr ''B'', ''title'' \<mapsto> LStr ''Cells'',
                   ''textContent'' \<mapsto> LStr ''Draw a cell'']),
         (''b2'', [''course_id'' \<mapsto> LStr ''B'', ''title'' \<mapsto> LStr ''Genes'',
                   ''id'' \<mapsto> LStr ''legacy-7''])],
      submission_store =
        [(''u1'', [''assignment_id'' \<mapsto> LStr ''b1'', ''user_id'' \<mapsto> LStr ''s1'']),
         (''u2'', [''assignment_id'' \<mapsto> LStr ''a1'', ''user_id'' \<mapsto> LStr ''s2'']),
         (''u3'', [''assignment_id'' \<mapsto> LStr ''legacy-7'', ''user_id'' \<mapsto> LStr ''s1'']),
         (''u4'', [''assignment_id'' \<mapsto> LStr ''b1'', ''user_id'' \<mapsto> LStr ''s1''])],
      enrollments_throw = None,
      courses_throw = (\<lambda>path. None),
      assignments_throw = (\<lambda>i. None),
      submissions_throw = None\<rparr>"

definition demo_world :: world where
  "demo_world = \<lparr>backend = demo_backend, events = []\<rparr>"

text \<open>The same database with student \<open>s1\<close> enrolled in course \<open>A\<close> twice.\<close>

definition twice_enrolled_world :: world where
  "twice_enrolled_world =
     \<lparr>backend = demo_backend
        \<lparr>enrollment_store :=
           [(''e1'', [''student_id'' \<mapsto> LStr ''s1'', ''course_id'' \<mapsto> LStr ''A'']),
            (''e2'', [''student_id'' \<mapsto> LStr ''s1'', ''course_id'' \<mapsto> LStr ''A''])]\<rparr>,
      events = []\<rparr>"

text \<open>The same database when the read of course \<open>A\<close> throws.\<close>

definition course_A_throws_world :: world where
  "course_A_throws_world =
     \<lparr>backend = demo_backend
        \<lparr>courses_throw := (\<lambda>path. if path = ''A'' then Some (Store_error ''unavailable'') else None)\<rparr>,
      events = []\<rparr>"

text \<open>The same database when the course lookup of \<open>A\<close> finds no record.\<close>

definition course_A_missing_world :: world where
  "course_A_missing_world =
     \<lparr>backend = demo_backend
        \<lparr>course_store := (\<lambda>path. if path = ''B'' then Some [''title'' \<mapsto> LStr ''Biology''] else None)\<rparr>,
      events = []\<rparr>"

text \<open>
  A database whose course ids are names of members of \<^verbatim>\<open>Object.prototype\<close>: student
  \<open>s1\<close> is enrolled in a course \<open>constructor\<close>, which has no course record, and in a
  course \<open>__proto__\<close>, whose record has the title \<open>Hidden\<close>.
\<close>

definition inherited_names_world :: world where
  "inherited_names_world =
     \<lparr>backend = demo_backend
        \<lparr>enrollment_store :=
           [(''e1'', [''student_id'' \<mapsto> LStr ''s1'', ''course_id'' \<mapsto> LStr ''constructor'']),
            (''e2'', [''student_id'' \<mapsto> LStr ''s1'', ''course_id'' \<mapsto> LStr ''__proto__''])],
         course_store :=
           (\<lambda>path. if path = ''__proto__'' then Some [''title'' \<mapsto> LStr ''Hidden''] else None),
         assignment_store :=
           [(''c1'', [''course_id'' \<mapsto> LStr ''constructor'', ''title'' \<mapsto> LStr ''Builders'']),
            (''p1'', [''course_id'' \<mapsto> LStr ''__proto__'', ''title'' \<mapsto> LStr ''Chains''])]\<rparr>,
      events = []\<rparr>"

text \<open>
  The same database when the read of the assignment collection throws in the first round
  of the per-course loop, the round of course \<open>A\<close>.
\<close>

definition first_round_throws_world :: world where
  "first_round_throws_world =
     \<lparr>backend = demo_backend
        \<lparr>assignments_throw := (\<lambda>i. if i = 0 then Some (Store_error ''timeout'') else None)\<rparr>,
      events = []\<rparr>"

text \<open>The same database when the submission query throws.\<close>

definition submissions_throw_world :: world where
  "submissions_throw_world =
     \<lparr>backend = demo_backend\<lparr>submissions_throw := Some (Store_error ''denied'')\<rparr>,
      events = []\<rparr>"

section \<open>Properties\<close>

text \<open>The equations that evaluate the routine on a concrete database.\<close>

lemmas model_defs =
  fetchStudentAssignments_def try_block_def get_enrollments_def get_submissions_def
  equal_to_def course_ids_def decorate_def submission_of_def with_submission_def
  views_of_def js_or_def get_prop_def inherited_def object_prototype_names_def from_record_def
  assign_field_def Let_def

lemmas demo_defs =
  demo_world_def demo_backend_def twice_enrolled_world_def course_A_throws_world_def
  course_A_missing_world_def first_round_throws_world_def submissions_throw_world_def
  inherited_names_world_def

subsection \<open>The fields of a view\<close>

lemma inherited_plain [simp]:
  "inherited ''id'' = Undefined" "inherited ''assignmentType'' = Undefined"
  "inherited ''description'' = Undefined" "inherited ''textContent'' = Undefined"
  by (simp_all add: inherited_def object_prototype_names_def)

lemma from_record_eq_Leaf [simp]: "(from_record x = Leaf l) = (x = Some l)"
  by (cases x) (simp_all add: from_record_def)

lemma truthy_from_record [simp]: "truthy_value (from_record x) = truthy x"
  by (cases x) (simp_all add: from_record_def)

lemma decorate_id:
  "decorate cm cid (key, a) ''id'' = Some (Leaf (case a ''id'' of Some own \<Rightarrow> own | None \<Rightarrow> LStr key))"
  by (simp add: decorate_def map_add_def split: option.split)

lemma decorate_course_name:
  "decorate cm cid (key, a) ''course_name'' =
     Some (js_or (get_prop cm (to_string cid)) (Leaf (LStr ''Unknown Course'')))"
  by (simp add: decorate_def)

lemma decorate_other:
  "f \<noteq> ''id'' \<Longrightarrow> f \<noteq> ''course_name'' \<Longrightarrow> decorate cm cid (key, a) f = map_option Leaf (a f)"
  by (simp add: decorate_def map_add_def split: option.split)

lemma get_prop_decorate_id:
  "get_prop (decorate cm cid (key, a)) ''id'' = Leaf (case a ''id'' of Some own \<Rightarrow> own | None \<Rightarrow> LStr key)"
  by (simp add: get_prop_def decorate_id)

lemma get_prop_decorate_other:
  "f \<noteq> ''id'' \<Longrightarrow> f \<noteq> ''course_name'' \<Longrightarrow> inherited f = Undefined \<Longrightarrow>
   get_prop (decorate cm cid (key, a)) f = from_record (a f)"
  by (simp add: get_prop_def decorate_other from_record_def split: option.split)

lemma submission_of_other:
  "f \<noteq> ''id'' \<Longrightarrow> submission_of (key, r) f = r f"
  by (simp add: submission_of_def map_add_def split: option.split)

lemma find_is_Some: "(\<exists>y. find P xs = Some y) = (\<exists>x \<in> set xs. P x)"
  by (induction xs) auto

lemma find_map_filter:
  "find P (map f (filter Q xs)) = map_option f (find (\<lambda>x. Q x \<and> P (f x)) xs)"
  by (induction xs) auto

lemma with_submission_id:
  "with_submission subs d ''id'' = d ''id''"
  by (simp add: with_submission_def Let_def)

lemma with_submission_course_name:
  "with_submission subs d ''course_name'' = d ''course_name''"
  by (simp add: with_submission_def Let_def)

lemma with_submission_submitted:
  "with_submission subs d ''submitted'' =
     Some (Leaf (LBool (\<exists>s \<in> set subs. from_record (s ''assignment_id'') = get_prop d ''id'')))"
  by (simp add: with_submission_def Let_def find_is_Some)

lemma with_submission_submission:
  "with_submission subs d ''submission'' =
     Some (case find (\<lambda>s. from_record (s ''assignment_id'') = get_prop d ''id'') subs of
             Some s \<Rightarrow> Obj s | None \<Rightarrow> Null)"
  by (simp add: with_submission_def Let_def)

lemma with_submission_textContent:
  "with_submission subs d ''textContent'' =
     Some (js_or (get_prop d ''description'') (get_prop d ''textContent''))"
  by (simp add: with_submission_def Let_def)

lemma view_other:
  "f \<notin> derived_fields \<Longrightarrow>
   with_submission subs (decorate cm cid (key, a)) f = map_option Leaf (a f)"
  by (simp add: with_submission_def Let_def derived_fields_def decorate_other)

subsection \<open>The loop over the course titles\<close>

lemma course_names_fst_Cons:
  "fst (course_names b (cid # cids) m) =
     (case courses_throw b (to_string cid) of
        Some e \<Rightarrow> Inl e
      | None \<Rightarrow> fst (course_names b cids
                  (case course_store b (to_string cid) of
                     Some course \<Rightarrow> assign_field m (to_string cid) (course ''title'')
                   | None \<Rightarrow> m)))"
  by (simp add: Let_def split_beta split: option.split)

lemma course_names_titles:
  "fst (course_names b cids m) = Inr cm \<Longrightarrow>
   cm p = (if p \<in> to_string ` set cids \<and> p \<noteq> ''__proto__''
           then (case course_store b p of
                   Some course \<Rightarrow> Some (from_record (course ''title''))
                 | None \<Rightarrow> m p)
           else m p)"
proof (induction cids arbitrary: m)
  case Nil
  then show ?case by simp
next
  case (Cons c cids)
  let ?m' = "case course_store b (to_string c) of
               Some course \<Rightarrow> assign_field m (to_string c) (course ''title'') | None \<Rightarrow> m"
  from Cons.prems have rest: "fst (course_names b cids ?m') = Inr cm"
    unfolding course_names_fst_Cons by (simp split: option.splits)
  have m': "?m' q = (if q = to_string c \<and> q \<noteq> ''__proto__''
                     then (case course_store b q of
                             Some course \<Rightarrow> Some (from_record (course ''title''))
                           | None \<Rightarrow> m q)
                     else m q)" for q
    by (simp add: assign_field_def split: option.split)
  show ?case
    unfolding Cons.IH [OF rest] m' by (auto split: option.split)
qed

lemma course_names_succeeds_iff:
  "(\<exists>cm. fst (course_names b cids m) = Inr cm) \<longleftrightarrow>
   (\<forall>cid \<in> set cids. courses_throw b (to_string cid) = None)"
proof (induction cids arbitrary: m)
  case Nil
  then show ?case by simp
next
  case (Cons c cids)
  show ?case
    unfolding course_names_fst_Cons by (cases "courses_throw b (to_string c)") (simp_all add: Cons.IH)
qed

lemma course_names_no_toast: "Toast_error msg \<notin> set (snd (course_names b cids m))"
  by (induction cids arbitrary: m) (auto simp: Let_def split_beta split: option.split)

subsection \<open>The per-course loop\<close>

lemma course_assignments_fst_Cons:
  "fst (course_assignments b cm i (cid # cids)) =
     (case assignments_throw b i of
        Some e \<Rightarrow> []
      | None \<Rightarrow> map (decorate cm cid)
                 (filter (\<lambda>(key, a). a ''course_id'' = cid) (assignment_store b)))
     @ fst (course_assignments b cm (Suc i) cids)"
  by (simp add: Let_def split_beta split: option.split)

lemma course_assignments_sound:
  "x \<in> set (fst (course_assignments b cm i cids)) \<Longrightarrow>
   \<exists>cid \<in> set cids. \<exists>(key, a) \<in> set (assignment_store b).
      a ''course_id'' = cid \<and> x = decorate cm cid (key, a)"
proof (induction cids arbitrary: i)
  case Nil
  then show ?case by simp
next
  case (Cons c cids)
  from Cons.prems consider
    (here) "assignments_throw b i = None"
      "x \<in> decorate cm c ` {ka \<in> set (assignment_store b). snd ka ''course_id'' = c}"
    | (later) "x \<in> set (fst (course_assignments b cm (Suc i) cids))"
    unfolding course_assignments_fst_Cons by (auto split: option.splits)
  then show ?case
  proof cases
    case here
    then show ?thesis by auto
  next
    case later
    from Cons.IH [OF this] show ?thesis by auto
  qed
qed

lemma course_assignments_complete:
  "j < length cids \<Longrightarrow> assignments_throw b (i + j) = None \<Longrightarrow>
   (key, a) \<in> set (assignment_store b) \<Longrightarrow> a ''course_id'' = cids ! j \<Longrightarrow>
   decorate cm (cids ! j) (key, a) \<in> set (fst (course_assignments b cm i cids))"
proof (induction cids arbitrary: i j)
  case Nil
  then show ?case by simp
next
  case (Cons c cids)
  show ?case
  proof (cases j)
    case 0
    with Cons.prems show ?thesis
      unfolding course_assignments_fst_Cons by force
  next
    case (Suc j')
    with Cons.prems
    have "decorate cm (cids ! j') (key, a) \<in> set (fst (course_assignments b cm (Suc i) cids))"
      by (intro Cons.IH) auto
    with Suc show ?thesis
      unfolding course_assignments_fst_Cons by simp
  qed
qed

lemma course_assignments_no_throw:
  "(\<And>j. j < length cids \<Longrightarrow> assignments_throw b (i + j) = None) \<Longrightarrow>
   fst (course_assignments b cm i cids) =
     concat (map (\<lambda>cid. map (decorate cm cid)
        (filter (\<lambda>(key, a). a ''course_id'' = cid) (assignment_store b))) cids)"
proof (induction cids arbitrary: i)
  case Nil
  then show ?case by simp
next
  case (Cons c cids)
  have "assignments_throw b i = None"
    using Cons.prems [of 0] by simp
  moreover have "fst (course_assignments b cm (Suc i) cids) =
     concat (map (\<lambda>cid. map (decorate cm cid)
        (filter (\<lambda>(key, a). a ''course_id'' = cid) (assignment_store b))) cids)"
  proof (rule Cons.IH)
    fix j assume "j < length cids"
    then show "assignments_throw b (Suc i + j) = None"
      using Cons.prems [of "Suc j"] by simp
  qed
  ultimately show ?case
    unfolding course_assignments_fst_Cons by simp
qed

lemma course_assignments_no_toast: "Toast_error msg \<notin> set (snd (course_assignments b cm i cids))"
  by (induction cids arbitrary: i) (auto simp: Let_def split_beta split: option.split)

subsection \<open>The try block and its handler\<close>

lemma try_block_fst:
  "fst (try_block b uid) =
     (case enrollments_throw b of
        Some e \<Rightarrow> Inl e
      | None \<Rightarrow>
          if equal_to ''student_id'' uid (enrollment_store b) = [] then Inr []
          else
            (case fst (course_names b (course_ids (equal_to ''student_id'' uid (enrollment_store b)))
                         Map.empty) of
               Inl e \<Rightarrow> Inl e
             | Inr cm \<Rightarrow>
                 (case submissions_throw b of
                    Some e \<Rightarrow> Inl e
                  | None \<Rightarrow>
                      Inr (map (with_submission
                                  (map submission_of (equal_to ''user_id'' uid (submission_store b))))
                             (fst (course_assignments b cm 0
                                (course_ids (equal_to ''student_id'' uid (enrollment_store b)))))))))"
  by (simp add: try_block_def get_enrollments_def get_submissions_def Let_def course_ids_def
      split: option.split sum.split prod.split)

lemma try_block_fails_iff:
  "(\<exists>e. fst (try_block b uid) = Inl e) \<longleftrightarrow>
   (enrollments_throw b \<noteq> None \<or>
    (equal_to ''student_id'' uid (enrollment_store b) \<noteq> [] \<and>
     ((\<exists>cid \<in> set (course_ids (equal_to ''student_id'' uid (enrollment_store b))).
          courses_throw b (to_string cid) \<noteq> None) \<or>
      submissions_throw b \<noteq> None)))"
proof -
  let ?cids = "course_ids (equal_to ''student_id'' uid (enrollment_store b))"
  have names: "(\<exists>cid \<in> set ?cids. courses_throw b (to_string cid) \<noteq> None) \<longleftrightarrow>
               (\<exists>e. fst (course_names b ?cids Map.empty) = Inl e)"
    using course_names_succeeds_iff [of b ?cids "\<lambda>_. None"]
    by (cases "fst (course_names b ?cids Map.empty)") auto
  show ?thesis
    unfolding names try_block_fst
    by (auto split: option.splits sum.splits)
qed

lemma try_block_no_toast: "Toast_error msg \<notin> set (snd (try_block b uid))"
proof -
  have "Toast_error msg \<notin> set (snd (course_names b cids m))"
       "Toast_error msg \<notin> set (snd (course_assignments b cm i cids))" for cids m cm i
    by (rule course_names_no_toast course_assignments_no_toast)+
  then have "course_names b cids m = (r, evs) \<Longrightarrow> Toast_error msg \<notin> set evs"
       "course_assignments b cm i cids = (d, evs) \<Longrightarrow> Toast_error msg \<notin> set evs" for cids m cm i r evs d
    by (metis snd_conv)+
  then show ?thesis
    by (auto simp: try_block_def get_enrollments_def get_submissions_def Let_def
      split: option.split sum.split prod.split)
qed

lemma fetch_fst:
  "uid \<noteq> [] \<Longrightarrow>
   fst (fetchStudentAssignments (Some uid) w) =
     Fulfilled (case fst (try_block (backend w) uid) of Inr vs \<Rightarrow> vs | Inl e \<Rightarrow> [])"
  by (simp add: fetchStudentAssignments_def split: prod.split sum.split)

lemma fetch_events:
  "uid \<noteq> [] \<Longrightarrow>
   events (snd (fetchStudentAssignments (Some uid) w)) =
     events w @ snd (try_block (backend w) uid) @
       (case fst (try_block (backend w) uid) of
          Inr vs \<Rightarrow> []
        | Inl e \<Rightarrow> [Console_error ''Error fetching assignments:'' e,
                    Toast_error ''Failed to fetch assignments. Please try again later.''])"
  by (simp add: fetchStudentAssignments_def split: prod.split sum.split)

lemma fetch_backend: "backend (snd (fetchStudentAssignments userId w)) = backend w"
  by (simp add: fetchStudentAssignments_def split: option.split prod.split sum.split)

lemma fetch_result_depends_on_backend:
  "backend w = backend w' \<Longrightarrow>
   fst (fetchStudentAssignments userId w) = fst (fetchStudentAssignments userId w')"
  by (simp add: fetchStudentAssignments_def split: option.split prod.split sum.split)

text \<open>
  Every returned view is the join of a decorated assignment record: the record is a child
  of the assignment collection, its course is one of the student's enrolled courses, and
  the course titles are those the first loop collected.
\<close>

lemma view_source:
  assumes "v \<in> set (views_of (fst (fetchStudentAssignments userId w)))"
  shows "\<exists>uid cid key a cm.
           userId = Some uid \<and> uid \<noteq> [] \<and>
           cid \<in> set (course_ids (equal_to ''student_id'' uid (enrollment_store (backend w)))) \<and>
           fst (course_names (backend w)
                  (course_ids (equal_to ''student_id'' uid (enrollment_store (backend w))))
                  Map.empty) = Inr cm \<and>
           (key, a) \<in> set (assignment_store (backend w)) \<and> a ''course_id'' = cid \<and>
           v = with_submission
                 (map submission_of (equal_to ''user_id'' uid (submission_store (backend w))))
                 (decorate cm cid (key, a))"
proof -
  from assms obtain uid where uid: "userId = Some uid" "uid \<noteq> []"
    by (auto simp: fetchStudentAssignments_def views_of_def split: option.splits if_splits)
  let ?b = "backend w"
  let ?cids = "course_ids (equal_to ''student_id'' uid (enrollment_store ?b))"
  let ?subs = "map submission_of (equal_to ''user_id'' uid (submission_store ?b))"
  from assms uid obtain vs where vs: "fst (try_block ?b uid) = Inr vs" "v \<in> set vs"
    by (cases "fst (try_block ?b uid)") (auto simp: fetch_fst views_of_def)
  from vs obtain cm where cm: "fst (course_names ?b ?cids Map.empty) = Inr cm"
    and "vs = map (with_submission ?subs) (fst (course_assignments ?b cm 0 ?cids))"
    unfolding try_block_fst by (auto split: option.splits if_splits sum.splits)
  with vs(2) obtain x where x: "x \<in> set (fst (course_assignments ?b cm 0 ?cids))"
    "v = with_submission ?subs x"
    by auto
  from course_assignments_sound [OF x(1)] x(2) uid cm show ?thesis
    by blast
qed

lemma demo_views_length:
  "length (views_of (fst (fetchStudentAssignments (Some ''s1'') demo_world))) = 3"
  by (simp add: model_defs demo_defs)

subsection \<open>The submitted flag\<close>

text \<open>
  Claim C1. For every view \<open>v\<close> that \<open>fetchStudentAssignments\<close> returns for a student,
  the field \<open>submitted\<close> of \<open>v\<close> is \<open>true\<close> if and only if the submission store holds a
  record whose \<open>assignment_id\<close> equals the \<open>id\<close> of \<open>v\<close> and whose \<open>user_id\<close> equals
  the student's id.
\<close>

theorem submitted_iff_submission_exists:
  assumes "v \<in> set (views_of (fst (fetchStudentAssignments userId w)))"
  shows "(v ''submitted'' = Some (Leaf (LBool True))) \<longleftrightarrow>
         (\<exists>(key, s) \<in> set (submission_store (backend w)).
            map_option Leaf (s ''assignment_id'') = v ''id'' \<and>
            s ''user_id'' = map_option LStr userId)"
proof -
  from view_source [OF assms] obtain uid cid key a cm where
    uid: "userId = Some uid"
    and v: "v = with_submission
                  (map submission_of (equal_to ''user_id'' uid (submission_store (backend w))))
                  (decorate cm cid (key, a))"
    by blast
  show ?thesis
    unfolding v uid
    by (auto simp: with_submission_submitted with_submission_id decorate_id get_prop_decorate_id
        equal_to_def submission_of_other split: option.splits)
qed

theorem submitted_iff_submission_exists_witness:
  "views_of (fst (fetchStudentAssignments (Some ''s1'') demo_world)) ! 1
     \<in> set (views_of (fst (fetchStudentAssignments (Some ''s1'') demo_world))) \<and>
   (((views_of (fst (fetchStudentAssignments (Some ''s1'') demo_world)) ! 1) ''submitted''
       = Some (Leaf (LBool True))) \<longleftrightarrow>
    (\<exists>(key, s) \<in> set (submission_store (backend demo_world)).
        map_option Leaf (s ''assignment_id'')
          = (views_of (fst (fetchStudentAssignments (Some ''s1'') demo_world)) ! 1) ''id'' \<and>
        s ''user_id'' = map_option LStr (Some ''s1'')))"
proof -
  have "length (views_of (fst (fetchStudentAssignments (Some ''s1'') demo_world))) = 3"
    by (simp add: model_defs demo_defs)
  then have mem: "views_of (fst (fetchStudentAssignments (Some ''s1'') demo_world)) ! 1
     \<in> set (views_of (fst (fetchStudentAssignments (Some ''s1'') demo_world)))"
    by simp
  from submitted_iff_submission_exists [OF mem] mem show ?thesis
    by (rule_tac conjI)
qed

subsection \<open>The text content of a view\<close>

text \<open>
  Claim C2 says that a view takes the record's own \<open>textContent\<close> when the record has
  one, and the description only when it has none. The source computes
  \<^verbatim>\<open>assignment.description || assignment.textContent\<close>: the description comes first.
  Assignment \<open>a1\<close> of the small database has both fields, and its view carries the
  description.
\<close>

theorem textContent_counterexample:
  "snd (assignment_store (backend demo_world) ! 0) ''textContent'' = Some (LStr ''Generated text'') \<and>
   (views_of (fst (fetchStudentAssignments (Some ''s1'') demo_world)) ! 0) ''textContent''
     = Some (Leaf (LStr ''Read chapter 1''))"
  by (simp add: model_defs demo_defs)

text \<open>
  Claim C2, amended. Every returned view is built from a stored assignment record; its
  \<open>textContent\<close> is the record's \<open>description\<close> when that is present and truthy
  (a non-empty string, a non-zero number, \<open>true\<close>), and otherwise the record's own
  \<open>textContent\<close>, which is \<open>undefined\<close> when the record has none.
\<close>

theorem textContent_prefers_description:
  assumes "v \<in> set (views_of (fst (fetchStudentAssignments userId w)))"
  shows "\<exists>(key, a) \<in> set (assignment_store (backend w)).
           (\<forall>f. f \<notin> derived_fields \<longrightarrow> v f = map_option Leaf (a f)) \<and>
           v ''textContent'' =
             Some (if truthy (a ''description'') then case_option Undefined Leaf (a ''description'')
                   else case_option Undefined Leaf (a ''textContent''))"
proof -
  from view_source [OF assms] obtain uid cid key a cm where
    a: "(key, a) \<in> set (assignment_store (backend w))"
    and v: "v = with_submission
                  (map submission_of (equal_to ''user_id'' uid (submission_store (backend w))))
                  (decorate cm cid (key, a))"
    by blast
  have "\<forall>f. f \<notin> derived_fields \<longrightarrow> v f = map_option Leaf (a f)"
    unfolding v by (simp add: view_other)
  moreover have "v ''textContent'' =
             Some (if truthy (a ''description'') then case_option Undefined Leaf (a ''description'')
                   else case_option Undefined Leaf (a ''textContent''))"
    unfolding v
    by (simp add: with_submission_textContent get_prop_decorate_other js_or_def
        flip: from_record_def)
  ultimately show ?thesis
    using a by blast
qed

theorem textContent_prefers_description_witness:
  "views_of (fst (fetchStudentAssignments (Some ''s1'') demo_world)) ! 0
     \<in> set (views_of (fst (fetchStudentAssignments (Some ''s1'') demo_world))) \<and>
   (\<exists>(key, a) \<in> set (assignment_store (backend demo_world)).
      (\<forall>f. f \<notin> derived_fields \<longrightarrow>
         (views_of (fst (fetchStudentAssignments (Some ''s1'') demo_world)) ! 0) f
           = map_option Leaf (a f)) \<and>
      (views_of (fst (fetchStudentAssignments (Some ''s1'') demo_world)) ! 0) ''textContent'' =
        Some (if truthy (a ''description'') then case_option Undefined Leaf (a ''description'')
              else case_option Undefined Leaf (a ''textContent'')))"
proof -
  have mem: "views_of (fst (fetchStudentAssignments (Some ''s1'') demo_world)) ! 0
     \<in> set (views_of (fst (fetchStudentAssignments (Some ''s1'') demo_world)))"
    by (rule nth_mem) (simp add: demo_views_length)
  from textContent_prefers_description [OF mem] mem show ?thesis
    by (rule_tac conjI)
qed

subsection \<open>Enrollments that repeat a course\<close>

text \<open>
  Claim C3 says that the collected course ids are distinct, so that a course the student
  is enrolled in twice is processed once. The source pushes one course id per enrollment
  record and removes no duplicates: with student \<open>s1\<close> enrolled in course \<open>A\<close> twice,
  the one assignment of \<open>A\<close> is returned twice.
\<close>

theorem duplicate_enrollment_counterexample:
  "course_ids (equal_to ''student_id'' ''s1'' (enrollment_store (backend twice_enrolled_world)))
     = [Some (LStr ''A''), Some (LStr ''A'')] \<and>
   map (\<lambda>v. v ''id'') (views_of (fst (fetchStudentAssignments (Some ''s1'') twice_enrolled_world)))
     = [Some (Leaf (LStr ''a1'')), Some (Leaf (LStr ''a1''))]"
  by (simp add: model_defs demo_defs)

text \<open>
  Claim C3, amended. The course ids are collected one per enrollment record of the
  student, in the order of the snapshot and without removing duplicates. When no read
  throws, the returned list is the concatenation, over the student's enrollment records,
  of the views of the assignments of the record's course: a course that \<open>k\<close> enrollment
  records name is processed \<open>k\<close> times and each of its assignments appears \<open>k\<close> times.
\<close>

theorem one_round_per_enrollment:
  assumes "uid \<noteq> []"
    and "enrollments_throw b = None"
    and "\<forall>(ekey, e) \<in> set (equal_to ''student_id'' uid (enrollment_store b)).
           courses_throw b (to_string (e ''course_id'')) = None"
    and "\<forall>i < length (equal_to ''student_id'' uid (enrollment_store b)). assignments_throw b i = None"
    and "submissions_throw b = None"
  shows "\<exists>cm. fst (fetchStudentAssignments (Some uid) \<lparr>backend = b, events = evs\<rparr>) =
           Fulfilled
             (map (with_submission (map submission_of (equal_to ''user_id'' uid (submission_store b))))
                (concat (map (\<lambda>(ekey, e). map (decorate cm (e ''course_id''))
                                (filter (\<lambda>(key, a). a ''course_id'' = e ''course_id'')
                                   (assignment_store b)))
                           (equal_to ''student_id'' uid (enrollment_store b)))))"
proof -
  let ?snap = "equal_to ''student_id'' uid (enrollment_store b)"
  let ?cids = "course_ids ?snap"
  from assms(3) have "\<forall>cid \<in> set ?cids. courses_throw b (to_string cid) = None"
    by (auto simp: course_ids_def)
  then obtain cm where cm: "fst (course_names b ?cids Map.empty) = Inr cm"
    using course_names_succeeds_iff by blast
  from assms(4) have "fst (course_assignments b cm 0 ?cids) =
     concat (map (\<lambda>cid. map (decorate cm cid)
        (filter (\<lambda>(key, a). a ''course_id'' = cid) (assignment_store b))) ?cids)"
    by (intro course_assignments_no_throw) (simp add: course_ids_def)
  also have "\<dots> = concat (map (\<lambda>(ekey, e). map (decorate cm (e ''course_id''))
                                (filter (\<lambda>(key, a). a ''course_id'' = e ''course_id'')
                                   (assignment_store b))) ?snap)"
    by (rule arg_cong [where f = concat]) (auto simp: course_ids_def)
  finally show ?thesis
    using assms(1,2,5) cm
    by (intro exI [of _ cm]) (simp add: fetch_fst try_block_fst)
qed

theorem one_round_per_enrollment_witness:
  "''s1'' \<noteq> [] \<and>
   enrollments_throw (backend twice_enrolled_world) = None \<and>
   map (\<lambda>(ekey, e). courses_throw (backend twice_enrolled_world) (to_string (e ''course_id'')))
     (equal_to ''student_id'' ''s1'' (enrollment_store (backend twice_enrolled_world)))
     = [None, None] \<and>
   map (assignments_throw (backend twice_enrolled_world))
     [0 ..< length (equal_to ''student_id'' ''s1'' (enrollment_store (backend twice_enrolled_world)))]
     = [None, None] \<and>
   submissions_throw (backend twice_enrolled_world) = None \<and>
   (\<exists>cm. fst (fetchStudentAssignments (Some ''s1'')
                 \<lparr>backend = backend twice_enrolled_world, events = []\<rparr>) =
           Fulfilled
             (map (with_submission (map submission_of
                     (equal_to ''user_id'' ''s1'' (submission_store (backend twice_enrolled_world)))))
                (concat (map (\<lambda>(ekey, e). map (decorate cm (e ''course_id''))
                                (filter (\<lambda>(key, a). a ''course_id'' = e ''course_id'')
                                   (assignment_store (backend twice_enrolled_world))))
                           (equal_to ''student_id'' ''s1''
                              (enrollment_store (backend twice_enrolled_world)))))))"
proof -
  let ?b = "backend twice_enrolled_world"
  have h1: "''s1'' \<noteq> []" by simp
  have h2: "enrollments_throw ?b = None"
    by (simp add: demo_defs)
  have e3: "map (\<lambda>(ekey, e). courses_throw ?b (to_string (e ''course_id'')))
     (equal_to ''student_id'' ''s1'' (enrollment_store ?b)) = [None, None]"
    by (simp add: demo_defs equal_to_def)
  have h3: "\<forall>(ekey, e) \<in> set (equal_to ''student_id'' ''s1'' (enrollment_store ?b)).
      courses_throw ?b (to_string (e ''course_id'')) = None"
    by (simp add: demo_defs)
  have e4: "map (assignments_throw ?b)
     [0 ..< length (equal_to ''student_id'' ''s1'' (enrollment_store ?b))] = [None, None]"
    by (simp add: demo_defs equal_to_def upt_rec)
  have h4: "\<forall>i < length (equal_to ''student_id'' ''s1'' (enrollment_store ?b)).
      assignments_throw ?b i = None"
    by (simp add: demo_defs)
  have h5: "submissions_throw ?b = None"
    by (simp add: demo_defs)
  from h1 h2 e3 e4 h5 one_round_per_enrollment [OF h1 h2 h3 h4 h5, of "[]"] show ?thesis
    by (intro conjI)
qed

subsection \<open>A course lookup that throws\<close>

text \<open>
  Claim C4 says that when the course lookup throws for course \<open>A\<close> and returns for
  course \<open>B\<close>, the assignments of \<open>B\<close> are returned with their course name and those
  of \<open>A\<close> with the name \<open>Unknown Course\<close>. The loop over the course titles has no
  handler of its own: the error reaches the handler of the whole routine, which notifies
  and returns the empty list, before any assignment is read.
\<close>

theorem course_lookup_throw_counterexample:
  "fetchStudentAssignments (Some ''s1'') course_A_throws_world =
     (Fulfilled [],
      course_A_throws_world
        \<lparr>events :=
           [Get_enrollments ''s1'', Get_course ''A'',
            Console_error ''Error fetching assignments:'' (Store_error ''unavailable''),
            Toast_error ''Failed to fetch assignments. Please try again later.'']\<rparr>)"
  by (simp add: model_defs demo_defs)

text \<open>
  Claim C4, amended. If the course lookup throws for an enrolled course, the whole
  aggregation is aborted: the routine notifies the user and returns the empty list.
  \<open>Unknown Course\<close> is the name for a lookup that misses: in every returned view whose
  course id does not print as the name of a member of \<^verbatim>\<open>Object.prototype\<close>, the
  course name is the title found under the view's course id, and \<open>Unknown Course\<close>
  when no course record is found there or its title is absent or falsy.
\<close>

theorem course_lookup_throw_aborts:
  "(uid \<noteq> [] \<and> enrollments_throw (backend w) = None \<and>
    cid \<in> set (course_ids (equal_to ''student_id'' uid (enrollment_store (backend w)))) \<and>
    courses_throw (backend w) (to_string cid) \<noteq> None
    \<longrightarrow> fst (fetchStudentAssignments (Some uid) w) = Fulfilled [] \<and>
        Toast_error ''Failed to fetch assignments. Please try again later.''
          \<in> set (events (snd (fetchStudentAssignments (Some uid) w)))) \<and>
   (v \<in> set (views_of (fst (fetchStudentAssignments (Some uid) w))) \<and>
    to_string (course_id_of v) \<notin> set object_prototype_names
    \<longrightarrow> v ''course_name'' =
          Some (Leaf (case course_store (backend w) (to_string (course_id_of v)) of
                        None \<Rightarrow> LStr ''Unknown Course''
                      | Some course \<Rightarrow>
                          (case course ''title'' of
                             None \<Rightarrow> LStr ''Unknown Course''
                           | Some t \<Rightarrow> if truthy (Some t) then t else LStr ''Unknown Course''))))"
proof (intro conjI impI)
  assume a: "uid \<noteq> [] \<and> enrollments_throw (backend w) = None \<and>
    cid \<in> set (course_ids (equal_to ''student_id'' uid (enrollment_store (backend w)))) \<and>
    courses_throw (backend w) (to_string cid) \<noteq> None"
  then have "equal_to ''student_id'' uid (enrollment_store (backend w)) \<noteq> []"
    by (auto simp: course_ids_def)
  with a obtain e where e: "fst (try_block (backend w) uid) = Inl e"
    using try_block_fails_iff [of "backend w" uid] by blast
  from a have uid: "uid \<noteq> []" by simp
  show "fst (fetchStudentAssignments (Some uid) w) = Fulfilled []"
    by (simp add: fetch_fst [OF uid] e)
  show "Toast_error ''Failed to fetch assignments. Please try again later.''
          \<in> set (events (snd (fetchStudentAssignments (Some uid) w)))"
    by (simp add: fetch_events [OF uid] e)
next
  assume b: "v \<in> set (views_of (fst (fetchStudentAssignments (Some uid) w))) \<and>
    to_string (course_id_of v) \<notin> set object_prototype_names"
  then have "v \<in> set (views_of (fst (fetchStudentAssignments (Some uid) w)))"
    by simp
  from view_source [OF this] obtain c key a cm where
    c: "c \<in> set (course_ids (equal_to ''student_id'' uid (enrollment_store (backend w))))"
    and cm: "fst (course_names (backend w)
                  (course_ids (equal_to ''student_id'' uid (enrollment_store (backend w))))
                  Map.empty) = Inr cm"
    and a: "a ''course_id'' = c"
    and v: "v = with_submission
                 (map submission_of (equal_to ''user_id'' uid (submission_store (backend w))))
                 (decorate cm c (key, a))"
    by blast
  have "v ''course_id'' = map_option Leaf c"
    unfolding v by (simp add: view_other derived_fields_def a)
  then have cv: "course_id_of v = c"
    by (cases c) (simp_all add: course_id_of_def)
  with b have plain: "to_string c \<notin> set object_prototype_names"
    by simp
  then have noproto: "to_string c \<noteq> ''__proto__''"
    by (auto simp: object_prototype_names_def)
  from plain have inh: "inherited (to_string c) = Undefined"
    by (simp add: inherited_def)
  from c noproto have "cm (to_string c) =
     (case course_store (backend w) (to_string c) of
        Some course \<Rightarrow> Some (from_record (course ''title'')) | None \<Rightarrow> None)"
    unfolding course_names_titles [OF cm] by simp
  then have "get_prop cm (to_string c) =
     (case course_store (backend w) (to_string c) of
        Some course \<Rightarrow> from_record (course ''title'') | None \<Rightarrow> Undefined)"
    by (simp add: get_prop_def inh split: option.split)
  then have "v ''course_name'' =
          Some (Leaf (case course_store (backend w) (to_string c) of
                        None \<Rightarrow> LStr ''Unknown Course''
                      | Some course \<Rightarrow>
                          (case course ''title'' of
                             None \<Rightarrow> LStr ''Unknown Course''
                           | Some t \<Rightarrow> if truthy (Some t) then t else LStr ''Unknown Course'')))"
    unfolding v
    by (simp add: with_submission_course_name decorate_course_name js_or_def from_record_def
        split: option.split)
  then show "v ''course_name'' =
          Some (Leaf (case course_store (backend w) (to_string (course_id_of v)) of
                        None \<Rightarrow> LStr ''Unknown Course''
                      | Some course \<Rightarrow>
                          (case course ''title'' of
                             None \<Rightarrow> LStr ''Unknown Course''
                           | Some t \<Rightarrow> if truthy (Some t) then t else LStr ''Unknown Course'')))"
    unfolding cv .
qed

theorem course_lookup_throw_aborts_witness:
  "(''s1'' \<noteq> [] \<and> enrollments_throw (backend course_A_throws_world) = None \<and>
    Some (LStr ''A'') \<in> set (course_ids (equal_to ''student_id'' ''s1''
                                (enrollment_store (backend course_A_throws_world)))) \<and>
    courses_throw (backend course_A_throws_world) (to_string (Some (LStr ''A''))) \<noteq> None) \<and>
   (fst (fetchStudentAssignments (Some ''s1'') course_A_throws_world) = Fulfilled [] \<and>
    Toast_error ''Failed to fetch assignments. Please try again later.''
      \<in> set (events (snd (fetchStudentAssignments (Some ''s1'') course_A_throws_world)))) \<and>
   (views_of (fst (fetchStudentAssignments (Some ''s1'') course_A_missing_world)) ! 0
      \<in> set (views_of (fst (fetchStudentAssignments (Some ''s1'') course_A_missing_world))) \<and>
    to_string (course_id_of
        (views_of (fst (fetchStudentAssignments (Some ''s1'') course_A_missing_world)) ! 0))
      \<notin> set object_prototype_names) \<and>
   (views_of (fst (fetchStudentAssignments (Some ''s1'') course_A_missing_world)) ! 0) ''course_name''
     = Some (Leaf (LStr ''Unknown Course''))"
proof -
  let ?v = "views_of (fst (fetchStudentAssignments (Some ''s1'') course_A_missing_world)) ! 0"
  have hyp: "''s1'' \<noteq> [] \<and> enrollments_throw (backend course_A_throws_world) = None \<and>
    Some (LStr ''A'') \<in> set (course_ids (equal_to ''student_id'' ''s1''
                                (enrollment_store (backend course_A_throws_world)))) \<and>
    courses_throw (backend course_A_throws_world) (to_string (Some (LStr ''A''))) \<noteq> None"
    by (simp add: demo_defs equal_to_def course_ids_def)
  have "length (views_of (fst (fetchStudentAssignments (Some ''s1'') course_A_missing_world))) = 3"
    by (simp add: model_defs demo_defs)
  then have mem: "?v \<in> set (views_of (fst (fetchStudentAssignments (Some ''s1'') course_A_missing_world)))"
    by simp
  have cid: "course_id_of ?v = Some (LStr ''A'')"
    by (simp add: model_defs demo_defs course_id_of_def)
  have plain: "to_string (course_id_of ?v) \<notin> set object_prototype_names"
    unfolding cid by (simp add: object_prototype_names_def)
  have throws: "fst (fetchStudentAssignments (Some ''s1'') course_A_throws_world) = Fulfilled [] \<and>
    Toast_error ''Failed to fetch assignments. Please try again later.''
      \<in> set (events (snd (fetchStudentAssignments (Some ''s1'') course_A_throws_world)))"
    using course_lookup_throw_aborts
      [where uid = "''s1''" and w = course_A_throws_world and cid = "Some (LStr ''A'')",
       THEN conjunct1] hyp
    by (rule mp)
  have "?v ''course_name'' =
          Some (Leaf (case course_store (backend course_A_missing_world) (to_string (course_id_of ?v)) of
                        None \<Rightarrow> LStr ''Unknown Course''
                      | Some course \<Rightarrow>
                          (case course ''title'' of
                             None \<Rightarrow> LStr ''Unknown Course''
                           | Some t \<Rightarrow> if truthy (Some t) then t else LStr ''Unknown Course'')))"
    using course_lookup_throw_aborts
      [where uid = "''s1''" and w = course_A_missing_world and v = ?v, THEN conjunct2]
      conjI [OF mem plain]
    by (rule mp)
  then have misses: "?v ''course_name'' = Some (Leaf (LStr ''Unknown Course''))"
    unfolding cid by (simp add: demo_defs)
  from hyp throws mem plain misses show ?thesis
    by blast
qed

text \<open>
  The second half at work: course \<open>A\<close> has no record, course \<open>B\<close> has one.
\<close>

lemma missing_course_example:
  "map (\<lambda>v. v ''course_name'')
     (views_of (fst (fetchStudentAssignments (Some ''s1'') course_A_missing_world)))
   = [Some (Leaf (LStr ''Unknown Course'')), Some (Leaf (LStr ''Biology'')), Some (Leaf (LStr ''Biology''))]"
  by (simp add: model_defs demo_defs)

text \<open>
  A course id that prints as the name of a member of \<^verbatim>\<open>Object.prototype\<close> is outside
  the amended claim. For such an id \<^verbatim>\<open>coursesMap[courseId]\<close> reads the inherited member
  when the object has no own property of that name: a course \<open>constructor\<close> without a
  record gets the inherited function as its name, and a course \<open>__proto__\<close> gets the
  prototype, its title never being stored.
\<close>

lemma inherited_member_example:
  "map (\<lambda>v. v ''course_name'')
     (views_of (fst (fetchStudentAssignments (Some ''s1'') inherited_names_world)))
   = [Some (Builtin ''constructor''), Some (Builtin ''__proto__'')]"
  by (simp add: model_defs demo_defs)

subsection \<open>No rejection\<close>

text \<open>
  Claim C5 says that the routine never rejects and that for every failure of a store it
  catches the error, notifies the user and returns a list. A failure of the read of the
  assignment collection is caught inside the per-course loop, which writes to the console
  only: no notification is emitted.
\<close>

theorem assignment_failure_not_notified_counterexample:
  "assignments_throw (backend first_round_throws_world) 0 = Some (Store_error ''timeout'') \<and>
   events (snd (fetchStudentAssignments (Some ''s1'') first_round_throws_world)) =
     [Get_enrollments ''s1'', Get_course ''A'', Get_course ''B'',
      Get_assignments,
      Console_error ''Error fetching assignments for course A:'' (Store_error ''timeout''),
      Get_assignments,
      Get_submissions ''s1'']"
  by (simp add: model_defs demo_defs)

text \<open>
  Claim C5, amended. The routine never rejects: it always fulfils its promise with a list.
  When the enrollment query throws, or (the student having enrollments) a course lookup or
  the submission query throws, the list is empty. The user is notified exactly in these
  cases, with the message of the handler; a read of the assignment collection that throws
  is caught in the per-course loop and logged to the console without a notification.
\<close>

theorem never_rejects:
  "(\<exists>vs. fst (fetchStudentAssignments userId w) = Fulfilled vs) \<and>
   (uid \<noteq> [] \<longrightarrow>
     ((enrollments_throw (backend w) \<noteq> None \<or>
       (equal_to ''student_id'' uid (enrollment_store (backend w)) \<noteq> [] \<and>
        ((\<exists>cid \<in> set (course_ids (equal_to ''student_id'' uid (enrollment_store (backend w)))).
             courses_throw (backend w) (to_string cid) \<noteq> None) \<or>
         submissions_throw (backend w) \<noteq> None)))
      \<longrightarrow> fst (fetchStudentAssignments (Some uid) w) = Fulfilled []) \<and>
     ((Toast_error msg \<in> set (events (snd (fetchStudentAssignments (Some uid) w)))) \<longleftrightarrow>
      (Toast_error msg \<in> set (events w) \<or>
       (msg = ''Failed to fetch assignments. Please try again later.'' \<and>
        (enrollments_throw (backend w) \<noteq> None \<or>
         (equal_to ''student_id'' uid (enrollment_store (backend w)) \<noteq> [] \<and>
          ((\<exists>cid \<in> set (course_ids (equal_to ''student_id'' uid (enrollment_store (backend w)))).
               courses_throw (backend w) (to_string cid) \<noteq> None) \<or>
           submissions_throw (backend w) \<noteq> None)))))))"
proof (intro conjI impI)
  show "\<exists>vs. fst (fetchStudentAssignments userId w) = Fulfilled vs"
    by (simp add: fetchStudentAssignments_def split: option.split prod.split sum.split)
next
  assume uid: "uid \<noteq> []"
    and "enrollments_throw (backend w) \<noteq> None \<or>
       (equal_to ''student_id'' uid (enrollment_store (backend w)) \<noteq> [] \<and>
        ((\<exists>cid \<in> set (course_ids (equal_to ''student_id'' uid (enrollment_store (backend w)))).
             courses_throw (backend w) (to_string cid) \<noteq> None) \<or>
         submissions_throw (backend w) \<noteq> None))"
  then obtain e where "fst (try_block (backend w) uid) = Inl e"
    unfolding try_block_fails_iff [symmetric] by blast
  then show "fst (fetchStudentAssignments (Some uid) w) = Fulfilled []"
    by (simp add: fetch_fst [OF uid])
next
  assume uid: "uid \<noteq> []"
  show "(Toast_error msg \<in> set (events (snd (fetchStudentAssignments (Some uid) w)))) \<longleftrightarrow>
      (Toast_error msg \<in> set (events w) \<or>
       (msg = ''Failed to fetch assignments. Please try again later.'' \<and>
        (enrollments_throw (backend w) \<noteq> None \<or>
         (equal_to ''student_id'' uid (enrollment_store (backend w)) \<noteq> [] \<and>
          ((\<exists>cid \<in> set (course_ids (equal_to ''student_id'' uid (enrollment_store (backend w)))).
               courses_throw (backend w) (to_string cid) \<noteq> None) \<or>
           submissions_throw (backend w) \<noteq> None)))))"
    unfolding try_block_fails_iff [symmetric] fetch_events [OF uid]
    by (cases "fst (try_block (backend w) uid)") (auto simp: try_block_no_toast)
qed

theorem never_rejects_witness:
  "''s1'' \<noteq> [] \<and>
   submissions_throw (backend submissions_throw_world) \<noteq> None \<and>
   equal_to ''student_id'' ''s1'' (enrollment_store (backend submissions_throw_world)) \<noteq> [] \<and>
   fst (fetchStudentAssignments (Some ''s1'') submissions_throw_world) = Fulfilled [] \<and>
   Toast_error ''Failed to fetch assignments. Please try again later.''
     \<in> set (events (snd (fetchStudentAssignments (Some ''s1'') submissions_throw_world)))"
proof -
  have h1: "''s1'' \<noteq> []" by simp
  have h2: "submissions_throw (backend submissions_throw_world) \<noteq> None"
    by (simp add: demo_defs)
  have h3: "equal_to ''student_id'' ''s1'' (enrollment_store (backend submissions_throw_world)) \<noteq> []"
    by (simp add: demo_defs equal_to_def)
  from never_rejects [of "Some ''s1''" submissions_throw_world "''s1''"
      "''Failed to fetch assignments. Please try again later.''"] h1 h2 h3
  have "fst (fetchStudentAssignments (Some ''s1'') submissions_throw_world) = Fulfilled []"
    and "Toast_error ''Failed to fetch assignments. Please try again later.''
     \<in> set (events (snd (fetchStudentAssignments (Some ''s1'') submissions_throw_world)))"
    by blast+
  with h1 h2 h3 show ?thesis
    by (intro conjI)
qed

subsection \<open>A failing round of the per-course loop\<close>

text \<open>
  Claim C6. If the read of the assignments throws in the round of one enrolled course, the
  loop goes on: for every round \<open>j\<close> whose read does not throw, every stored assignment
  of the course of round \<open>j\<close> has its view in the returned list (the other reads, of
  enrollments, course titles and submissions, not throwing).
\<close>

theorem other_courses_survive:
  assumes "uid \<noteq> []"
    and "enrollments_throw b = None"
    and "\<forall>cid \<in> set (course_ids (equal_to ''student_id'' uid (enrollment_store b))).
           courses_throw b (to_string cid) = None"
    and "submissions_throw b = None"
    and "j < length (course_ids (equal_to ''student_id'' uid (enrollment_store b)))"
    and "assignments_throw b j = None"
    and "(key, a) \<in> set (assignment_store b)"
    and "a ''course_id'' = course_ids (equal_to ''student_id'' uid (enrollment_store b)) ! j"
  shows "\<exists>cm. with_submission (map submission_of (equal_to ''user_id'' uid (submission_store b)))
                 (decorate cm (course_ids (equal_to ''student_id'' uid (enrollment_store b)) ! j) (key, a))
               \<in> set (views_of (fst (fetchStudentAssignments (Some uid) \<lparr>backend = b, events = evs\<rparr>)))"
proof -
  let ?cids = "course_ids (equal_to ''student_id'' uid (enrollment_store b))"
  from assms(3) obtain cm where cm: "fst (course_names b ?cids Map.empty) = Inr cm"
    using course_names_succeeds_iff by blast
  from assms(5) have ne: "equal_to ''student_id'' uid (enrollment_store b) \<noteq> []"
    by (auto simp: course_ids_def)
  have "decorate cm (?cids ! j) (key, a) \<in> set (fst (course_assignments b cm 0 ?cids))"
    using assms(5-8) by (intro course_assignments_complete) simp_all
  then show ?thesis
    using assms(1,2,4) cm ne
    by (intro exI [of _ cm]) (simp add: fetch_fst try_block_fst views_of_def)
qed

theorem other_courses_survive_witness:
  "''s1'' \<noteq> [] \<and>
   enrollments_throw (backend first_round_throws_world) = None \<and>
   map (\<lambda>cid. courses_throw (backend first_round_throws_world) (to_string cid))
     (course_ids (equal_to ''student_id'' ''s1'' (enrollment_store (backend first_round_throws_world))))
     = [None, None] \<and>
   submissions_throw (backend first_round_throws_world) = None \<and>
   assignments_throw (backend first_round_throws_world) 0 = Some (Store_error ''timeout'') \<and>
   1 < length (course_ids (equal_to ''student_id'' ''s1'' (enrollment_store (backend first_round_throws_world)))) \<and>
   assignments_throw (backend first_round_throws_world) 1 = None \<and>
   assignment_store (backend first_round_throws_world) ! 1
     \<in> set (assignment_store (backend first_round_throws_world)) \<and>
   snd (assignment_store (backend first_round_throws_world) ! 1) ''course_id''
     = course_ids (equal_to ''student_id'' ''s1'' (enrollment_store (backend first_round_throws_world))) ! 1 \<and>
   (\<exists>cm. with_submission
            (map submission_of (equal_to ''user_id'' ''s1'' (submission_store (backend first_round_throws_world))))
            (decorate cm
               (course_ids (equal_to ''student_id'' ''s1'' (enrollment_store (backend first_round_throws_world))) ! 1)
               (fst (assignment_store (backend first_round_throws_world) ! 1),
                snd (assignment_store (backend first_round_throws_world) ! 1)))
          \<in> set (views_of (fst (fetchStudentAssignments (Some ''s1'')
                   \<lparr>backend = backend first_round_throws_world, events = []\<rparr>))))"
proof -
  let ?b = "backend first_round_throws_world"
  have h1: "''s1'' \<noteq> []" by simp
  have h2: "enrollments_throw ?b = None"
    by (simp add: demo_defs)
  have h3: "\<forall>cid \<in> set (course_ids (equal_to ''student_id'' ''s1'' (enrollment_store ?b))).
      courses_throw ?b (to_string cid) = None"
    by (simp add: demo_defs)
  have h4: "submissions_throw ?b = None"
    by (simp add: demo_defs)
  have e3: "map (\<lambda>cid. courses_throw ?b (to_string cid))
     (course_ids (equal_to ''student_id'' ''s1'' (enrollment_store ?b))) = [None, None]"
    by (simp add: demo_defs equal_to_def course_ids_def)
  have h0: "assignments_throw ?b 0 = Some (Store_error ''timeout'')"
    by (simp add: demo_defs)
  have h5: "1 < length (course_ids (equal_to ''student_id'' ''s1'' (enrollment_store ?b)))"
    by (simp add: demo_defs equal_to_def course_ids_def)
  have h6: "assignments_throw ?b 1 = None"
    by (simp add: demo_defs)
  have h7: "assignment_store ?b ! 1 \<in> set (assignment_store ?b)"
    by (simp add: demo_defs)
  then have h7': "(fst (assignment_store ?b ! 1), snd (assignment_store ?b ! 1)) \<in> set (assignment_store ?b)"
    by simp
  have h8: "snd (assignment_store ?b ! 1) ''course_id''
     = course_ids (equal_to ''student_id'' ''s1'' (enrollment_store ?b)) ! 1"
    by (simp add: demo_defs equal_to_def course_ids_def)
  from h1 h2 e3 h4 h0 h5 h6 h7 h8 other_courses_survive [OF h1 h2 h3 h4 h5 h6 h7' h8, of "[]"]
  show ?thesis
    by (intro conjI)
qed

subsection \<open>An empty user id\<close>

text \<open>
  Claim C7. For a user id that is \<^verbatim>\<open>undefined\<close> or the empty string, the routine
  returns the empty list at once: the world is unchanged, so no store was asked and
  nothing was logged or notified.
\<close>

theorem empty_user_returns_immediately:
  "fetchStudentAssignments None w = (Fulfilled [], w) \<and>
   fetchStudentAssignments (Some []) w = (Fulfilled [], w)"
  by (simp add: fetchStudentAssignments_def)

subsection \<open>Calling twice\<close>

text \<open>
  Claim C8. The routine only reads the database, and its result depends on nothing but the
  database and the user id: a second call, made in the world the first call left behind,
  returns the same list as the first.
\<close>

theorem second_call_same_result:
  "fst (fetchStudentAssignments userId (snd (fetchStudentAssignments userId w)))
     = fst (fetchStudentAssignments userId w) \<and>
   backend (snd (fetchStudentAssignments userId w)) = backend w"
  using fetch_result_depends_on_backend [OF fetch_backend] fetch_backend by blast

subsection \<open>The id of a view\<close>

text \<open>
  Claim C9. Every returned view is built from a stored assignment record. When the record
  has an \<open>id\<close> field, the view carries that value, not the key of the record; only a
  record without an \<open>id\<close> field gives its key to the view. The join uses the same
  value: \<open>submitted\<close> is \<open>true\<close> exactly when a submission of the student names it as
  \<open>assignment_id\<close>.
\<close>

theorem record_id_overrides_key:
  assumes "v \<in> set (views_of (fst (fetchStudentAssignments userId w)))"
  shows "\<exists>(key, a) \<in> set (assignment_store (backend w)).
           (\<forall>f. f \<notin> derived_fields \<longrightarrow> v f = map_option Leaf (a f)) \<and>
           v ''id'' = Some (Leaf (case a ''id'' of Some own \<Rightarrow> own | None \<Rightarrow> LStr key)) \<and>
           ((v ''submitted'' = Some (Leaf (LBool True))) \<longleftrightarrow>
            (\<exists>(k, s) \<in> set (submission_store (backend w)).
               s ''user_id'' = map_option LStr userId \<and>
               s ''assignment_id'' = Some (case a ''id'' of Some own \<Rightarrow> own | None \<Rightarrow> LStr key)))"
proof -
  from view_source [OF assms] obtain uid cid key a cm where
    uid: "userId = Some uid"
    and a: "(key, a) \<in> set (assignment_store (backend w))"
    and v: "v = with_submission
                  (map submission_of (equal_to ''user_id'' uid (submission_store (backend w))))
                  (decorate cm cid (key, a))"
    by blast
  have "\<forall>f. f \<notin> derived_fields \<longrightarrow> v f = map_option Leaf (a f)"
    unfolding v by (simp add: view_other)
  moreover have "v ''id'' = Some (Leaf (case a ''id'' of Some own \<Rightarrow> own | None \<Rightarrow> LStr key))"
    unfolding v by (simp add: with_submission_id decorate_id)
  moreover have "(v ''submitted'' = Some (Leaf (LBool True))) \<longleftrightarrow>
            (\<exists>(k, s) \<in> set (submission_store (backend w)).
               s ''user_id'' = map_option LStr userId \<and>
               s ''assignment_id'' = Some (case a ''id'' of Some own \<Rightarrow> own | None \<Rightarrow> LStr key))"
    unfolding v uid
    by (auto simp: with_submission_submitted get_prop_decorate_id equal_to_def submission_of_other)
  ultimately show ?thesis
    using a by blast
qed

theorem record_id_overrides_key_witness:
  "views_of (fst (fetchStudentAssignments (Some ''s1'') demo_world)) ! 2
     \<in> set (views_of (fst (fetchStudentAssignments (Some ''s1'') demo_world))) \<and>
   (views_of (fst (fetchStudentAssignments (Some ''s1'') demo_world)) ! 2) ''id''
     = Some (Leaf (LStr ''legacy-7'')) \<and>
   (\<exists>(key, a) \<in> set (assignment_store (backend demo_world)).
      (\<forall>f. f \<notin> derived_fields \<longrightarrow>
         (views_of (fst (fetchStudentAssignments (Some ''s1'') demo_world)) ! 2) f
           = map_option Leaf (a f)) \<and>
      (views_of (fst (fetchStudentAssignments (Some ''s1'') demo_world)) ! 2) ''id''
        = Some (Leaf (case a ''id'' of Some own \<Rightarrow> own | None \<Rightarrow> LStr key)) \<and>
      (((views_of (fst (fetchStudentAssignments (Some ''s1'') demo_world)) ! 2) ''submitted''
          = Some (Leaf (LBool True))) \<longleftrightarrow>
       (\<exists>(k, s) \<in> set (submission_store (backend demo_world)).
          s ''user_id'' = map_option LStr (Some ''s1'') \<and>
          s ''assignment_id'' = Some (case a ''id'' of Some own \<Rightarrow> own | None \<Rightarrow> LStr key))))"
proof -
  have mem: "views_of (fst (fetchStudentAssignments (Some ''s1'') demo_world)) ! 2
     \<in> set (views_of (fst (fetchStudentAssignments (Some ''s1'') demo_world)))"
    by (rule nth_mem) (simp add: demo_views_length)
  have own: "(views_of (fst (fetchStudentAssignments (Some ''s1'') demo_world)) ! 2) ''id''
     = Some (Leaf (LStr ''legacy-7''))"
    by (simp add: model_defs demo_defs)
  from mem own record_id_overrides_key [OF mem] show ?thesis
    by (intro conjI)
qed

subsection \<open>The two derived submission fields\<close>

text \<open>
  Claim C10. In every returned view, \<open>submitted\<close> is \<open>true\<close> if and only if
  \<open>submission\<close> is not \<^verbatim>\<open>null\<close>, and \<open>submission\<close> is the first record of the
  submission store, in its iteration order, that belongs to the student and names the
  view's \<open>id\<close>; it is \<^verbatim>\<open>null\<close> when there is none.
\<close>

theorem submitted_agrees_with_submission:
  assumes "v \<in> set (views_of (fst (fetchStudentAssignments userId w)))"
  shows "((v ''submitted'' = Some (Leaf (LBool True))) \<longleftrightarrow> v ''submission'' \<noteq> Some Null) \<and>
         v ''submitted'' = Some (Leaf (LBool (v ''submission'' \<noteq> Some Null))) \<and>
         v ''submission'' =
           Some (case find (\<lambda>(key, s). s ''user_id'' = map_option LStr userId \<and>
                              map_option Leaf (s ''assignment_id'') = v ''id'')
                        (submission_store (backend w)) of
                   Some child \<Rightarrow> Obj (submission_of child)
                 | None \<Rightarrow> Null)"
proof -
  from view_source [OF assms] obtain uid cid key a cm where
    uid: "userId = Some uid"
    and v: "v = with_submission
                  (map submission_of (equal_to ''user_id'' uid (submission_store (backend w))))
                  (decorate cm cid (key, a))"
    by blast
  let ?d = "decorate cm cid (key, a)"
  have same: "(\<lambda>x. (case x of (k, r) \<Rightarrow> r ''user_id'' = Some (LStr uid)) \<and>
                    from_record (submission_of x ''assignment_id'') = get_prop ?d ''id'')
            = (\<lambda>(k, s). s ''user_id'' = map_option LStr userId \<and>
                    map_option Leaf (s ''assignment_id'') = v ''id'')"
    unfolding v uid
    by (auto simp: fun_eq_iff with_submission_id submission_of_other decorate_id
        get_prop_decorate_id split: option.splits)
  have "find (\<lambda>s. from_record (s ''assignment_id'') = get_prop ?d ''id'')
          (map submission_of (equal_to ''user_id'' uid (submission_store (backend w))))
        = map_option submission_of
           (find (\<lambda>x. (case x of (k, r) \<Rightarrow> r ''user_id'' = Some (LStr uid)) \<and>
                    from_record (submission_of x ''assignment_id'') = get_prop ?d ''id'') (submission_store (backend w)))"
    unfolding equal_to_def by (rule find_map_filter)
  then have found: "find (\<lambda>s. from_record (s ''assignment_id'') = get_prop ?d ''id'')
          (map submission_of (equal_to ''user_id'' uid (submission_store (backend w))))
        = map_option submission_of
           (find (\<lambda>(key, s). s ''user_id'' = map_option LStr userId \<and>
                    map_option Leaf (s ''assignment_id'') = v ''id'') (submission_store (backend w)))"
    unfolding same .
  have "v ''submission'' =
          Some (case find (\<lambda>s. from_record (s ''assignment_id'') = get_prop ?d ''id'')
                  (map submission_of (equal_to ''user_id'' uid (submission_store (backend w)))) of
                  Some s \<Rightarrow> Obj s | None \<Rightarrow> Null)"
    unfolding v by (rule with_submission_submission)
  then have sub: "v ''submission'' =
           Some (case find (\<lambda>(key, s). s ''user_id'' = map_option LStr userId \<and>
                              map_option Leaf (s ''assignment_id'') = v ''id'')
                        (submission_store (backend w)) of
                   Some child \<Rightarrow> Obj (submission_of child)
                 | None \<Rightarrow> Null)"
    unfolding found by (simp split: option.split)
  have flag: "v ''submitted'' = Some (Leaf (LBool (v ''submission'' \<noteq> Some Null)))"
    unfolding v
    by (simp add: with_submission_def Let_def split: option.split)
  from sub flag show ?thesis
    by simp
qed

theorem submitted_agrees_with_submission_witness:
  "views_of (fst (fetchStudentAssignments (Some ''s1'') demo_world)) ! 1
     \<in> set (views_of (fst (fetchStudentAssignments (Some ''s1'') demo_world))) \<and>
   (views_of (fst (fetchStudentAssignments (Some ''s1'') demo_world)) ! 1) ''submitted''
     = Some (Leaf (LBool True)) \<and>
   (views_of (fst (fetchStudentAssignments (Some ''s1'') demo_world)) ! 1) ''submission''
     = Some (Obj (submission_of (submission_store (backend demo_world) ! 0)))"
proof -
  have mem: "views_of (fst (fetchStudentAssignments (Some ''s1'') demo_world)) ! 1
     \<in> set (views_of (fst (fetchStudentAssignments (Some ''s1'') demo_world)))"
    by (rule nth_mem) (simp add: demo_views_length)
  have id: "(views_of (fst (fetchStudentAssignments (Some ''s1'') demo_world)) ! 1) ''id''
     = Some (Leaf (LStr ''b1''))"
    by (simp add: model_defs demo_defs)
  have "find (\<lambda>(key, s). s ''user_id'' = map_option LStr (Some ''s1'') \<and>
                  map_option Leaf (s ''assignment_id'') = Some (Leaf (LStr ''b1'')))
          (submission_store (backend demo_world))
        = Some (submission_store (backend demo_world) ! 0)"
    by (simp add: demo_defs)
  with submitted_agrees_with_submission [OF mem] mem show ?thesis
    unfolding id by simp
qed

end
